theory Spec2Isabelle
  imports Complex_Main "HOL-Library.Sublist"
begin

section \<open>Python values used by the validation engine\<close>

text \<open>
  The engine of \<^verbatim>\<open>services/validator.py\<close> (class \<^verbatim>\<open>ValidationEngine\<close>; the class
  \<^verbatim>\<open>DataValidator\<close> of \<^verbatim>\<open>services/data_validator.py\<close> has the same code with
  comments) works on the result of \<^verbatim>\<open>json.loads\<close>: dictionaries, lists, strings,
  numbers, booleans and \<^verbatim>\<open>None\<close>.

  Conventions of the model.
  \<^item> A Python \<^verbatim>\<open>str\<close> is a \<^typ>\<open>string\<close>; each \<^typ>\<open>char\<close> stands for the code point
    of the same number, so the strings covered are those with code points below 256.
  \<^item> A Python \<^verbatim>\<open>float\<close> is a \<open>pyfloat\<close>: the three special values, or a finite value
    given by the real number it denotes. Arithmetic on finite values is exact: binary
    rounding, overflow of a finite result to infinity and the sign of zero are left out.
  \<^item> An exception is a value of \<open>py_error\<close> on the left of a sum.
\<close>

datatype py_error = AttributeError | TypeError | ValueError | OverflowError | ZeroDivisionError

datatype pyfloat = Fin real | PInf | NInf | NaN

datatype json =
    JNull
  | JBool bool
  | JInt int
  | JFloat pyfloat
  | JStr string
  | JList "json list"
  | JDict "(string \<times> json) list"

subsection \<open>Floats\<close>

fun is_finite :: "pyfloat \<Rightarrow> bool" where
  "is_finite (Fin x) = True"
| "is_finite _ = False"

fun fneg :: "pyfloat \<Rightarrow> pyfloat" where
  "fneg (Fin x) = Fin (- x)"
| "fneg PInf = NInf"
| "fneg NInf = PInf"
| "fneg NaN = NaN"

fun fadd :: "pyfloat \<Rightarrow> pyfloat \<Rightarrow> pyfloat" where
  "fadd (Fin x) (Fin y) = Fin (x + y)"
| "fadd NaN _ = NaN"
| "fadd _ NaN = NaN"
| "fadd PInf NInf = NaN"
| "fadd NInf PInf = NaN"
| "fadd PInf _ = PInf"
| "fadd _ PInf = PInf"
| "fadd NInf _ = NInf"
| "fadd _ NInf = NInf"

definition fsub :: "pyfloat \<Rightarrow> pyfloat \<Rightarrow> pyfloat" where
  "fsub a b = fadd a (fneg b)"

fun fabs :: "pyfloat \<Rightarrow> pyfloat" where
  "fabs (Fin x) = Fin \<bar>x\<bar>"
| "fabs PInf = PInf"
| "fabs NInf = PInf"
| "fabs NaN = NaN"

text \<open>\<^verbatim>\<open>a < b\<close> on floats: false as soon as one side is \<^verbatim>\<open>nan\<close>.\<close>

fun flt :: "pyfloat \<Rightarrow> pyfloat \<Rightarrow> bool" where
  "flt NaN _ = False"
| "flt _ NaN = False"
| "flt (Fin x) (Fin y) = (x < y)"
| "flt _ NInf = False"
| "flt PInf _ = False"
| "flt NInf _ = True"
| "flt _ PInf = True"

definition fgt :: "pyfloat \<Rightarrow> pyfloat \<Rightarrow> bool" where
  "fgt a b = flt b a"

text \<open>\<^verbatim>\<open>max(a, b)\<close> keeps \<^verbatim>\<open>a\<close> unless \<^verbatim>\<open>b > a\<close>.\<close>

definition py_max :: "pyfloat \<Rightarrow> pyfloat \<Rightarrow> pyfloat" where
  "py_max a b = (if fgt b a then b else a)"

text \<open>\<^verbatim>\<open>a / b\<close> on floats raises \<^verbatim>\<open>ZeroDivisionError\<close> when \<^verbatim>\<open>b\<close> is zero.\<close>

fun py_truediv :: "pyfloat \<Rightarrow> pyfloat \<Rightarrow> py_error + pyfloat" where
  "py_truediv a (Fin y) =
     (if y = 0 then Inl ZeroDivisionError
      else case a of
        Fin x \<Rightarrow> Inr (Fin (x / y))
      | PInf \<Rightarrow> Inr (if 0 < y then PInf else NInf)
      | NInf \<Rightarrow> Inr (if 0 < y then NInf else PInf)
      | NaN \<Rightarrow> Inr NaN)"
| "py_truediv a NaN = Inr NaN"
| "py_truediv (Fin x) _ = Inr (Fin 0)"
| "py_truediv _ _ = Inr NaN"



subsection \<open>Strings\<close>

text \<open>\<^verbatim>\<open>str.isspace\<close> and \<^verbatim>\<open>str.lower\<close> on the code points below 256.\<close>

definition py_isspace :: "char \<Rightarrow> bool" where
  "py_isspace c =
     (let n = (of_char c :: nat)
      in (9 \<le> n \<and> n \<le> 13) \<or> (28 \<le> n \<and> n \<le> 32) \<or> n = 133 \<or> n = 160)"

definition py_lower_char :: "char \<Rightarrow> char" where
  "py_lower_char c =
     (let n = (of_char c :: nat)
      in if (65 \<le> n \<and> n \<le> 90) \<or> (192 \<le> n \<and> n \<le> 222 \<and> n \<noteq> 215)
         then char_of (n + 32) else c)"

definition py_lower :: "string \<Rightarrow> string" where
  "py_lower s = map py_lower_char s"

definition py_lstrip :: "string \<Rightarrow> string" where
  "py_lstrip s = dropWhile py_isspace s"

definition py_rstrip :: "string \<Rightarrow> string" where
  "py_rstrip s = rev (dropWhile py_isspace (rev s))"

definition py_strip :: "string \<Rightarrow> string" where
  "py_strip s = py_rstrip (py_lstrip s)"

text \<open>\<^verbatim>\<open>s.startswith(p)\<close> and \<^verbatim>\<open>p in s\<close>.\<close>

definition startswith :: "string \<Rightarrow> string \<Rightarrow> bool" where
  "startswith s p = (take (length p) s = p)"

fun py_contains :: "string \<Rightarrow> string \<Rightarrow> bool" where
  "py_contains p [] = (p = [])"
| "py_contains p (c # cs) = (startswith (c # cs) p \<or> py_contains p cs)"

text \<open>
  \<^verbatim>\<open>s.replace(old, "")\<close>: every occurrence of \<^verbatim>\<open>old\<close>, found from the left and not
  overlapping, is cut out. With an empty \<^verbatim>\<open>old\<close> the string is unchanged.
\<close>

function py_remove :: "string \<Rightarrow> string \<Rightarrow> string" where
  "py_remove old [] = []"
| "py_remove old (c # cs) =
     (if old \<noteq> [] \<and> startswith (c # cs) old
      then py_remove old (drop (length old) (c # cs))
      else c # py_remove old cs)"
  by pat_completeness auto
termination
  by (relation "measure (\<lambda>(old, s). length s)") (auto simp: startswith_def)

text \<open>\<^verbatim>\<open>s.split()\<close>: the maximal runs of characters that are not white space.\<close>

fun split_words :: "string \<Rightarrow> string \<Rightarrow> string list" where
  "split_words w [] = (if w = [] then [] else [w])"
| "split_words w (c # cs) =
     (if py_isspace c
      then (if w = [] then split_words [] cs else w # split_words [] cs)
      else split_words (w @ [c]) cs)"

definition py_split :: "string \<Rightarrow> string list" where
  "py_split s = split_words [] s"

section \<open>The total and subtotal classifier\<close>

definition total_keywords :: "string list" where
  "total_keywords =
     [''total'', ''subtotal'', ''sub-total'', ''grand total'',
      ''final total'', ''net amount'', ''amount due'',
      ''balance'', ''sum'', ''total amount'', ''final amount'']"

text \<open>The loop over the keywords of \<^verbatim>\<open>_is_total_or_subtotal\<close>, on the lowered name.\<close>

fun total_loop :: "string \<Rightarrow> string list \<Rightarrow> bool" where
  "total_loop item_lower [] = False"
| "total_loop item_lower (keyword # rest) =
     (if py_contains keyword item_lower \<and> length item_lower < 30
      then (if py_strip (py_remove keyword item_lower) \<in> set ['''', ''-'', '':'', ''='']
            then True else total_loop item_lower rest)
      else total_loop item_lower rest)"

definition is_total_or_subtotal :: "string \<Rightarrow> bool" where
  "is_total_or_subtotal item_name = total_loop (py_strip (py_lower item_name)) total_keywords"

subsection \<open>Coercions and dictionary access\<close>

text \<open>
  Two results of the Python runtime are parameters of the model: the float that
  \<^verbatim>\<open>float(s)\<close> reads from a string (\<open>None\<close> when it raises \<^verbatim>\<open>ValueError\<close>), and the
  text \<^verbatim>\<open>str(v)\<close> of a float, a list or a dictionary. Every theorem below holds
  whatever they are.
\<close>

record py_builtins =
  float_of_str :: "string \<Rightarrow> pyfloat option"
  str_of_other :: "json \<Rightarrow> string"

fun str_nat :: "nat \<Rightarrow> string" where
  "str_nat n =
     (if n < 10 then [char_of (48 + n)]
      else str_nat (n div 10) @ [char_of (48 + n mod 10)])"

declare str_nat.simps [simp del]

definition str_int :: "int \<Rightarrow> string" where
  "str_int i = (if i < 0 then CHR ''-'' # str_nat (nat (- i)) else str_nat (nat i))"

fun py_str :: "py_builtins \<Rightarrow> json \<Rightarrow> string" where
  "py_str rt JNull = ''None''"
| "py_str rt (JBool b) = (if b then ''True'' else ''False'')"
| "py_str rt (JInt i) = str_int i"
| "py_str rt (JStr s) = s"
| "py_str rt v = str_of_other rt v"

text \<open>
  \<^verbatim>\<open>float(v)\<close>: \<^verbatim>\<open>TypeError\<close> for \<^verbatim>\<open>None\<close>, a list or a dictionary, \<^verbatim>\<open>ValueError\<close> for
  a string that is no number, \<^verbatim>\<open>OverflowError\<close> for an integer that rounds beyond the
  largest double.
\<close>

fun py_float :: "py_builtins \<Rightarrow> json \<Rightarrow> py_error + pyfloat" where
  "py_float rt JNull = Inl TypeError"
| "py_float rt (JBool b) = Inr (Fin (if b then 1 else 0))"
| "py_float rt (JInt i) =
     (if 2 ^ 1024 - 2 ^ 970 \<le> \<bar>i\<bar> then Inl OverflowError else Inr (Fin (of_int i)))"
| "py_float rt (JFloat f) = Inr f"
| "py_float rt (JStr s) =
     (case float_of_str rt s of None \<Rightarrow> Inl ValueError | Some f \<Rightarrow> Inr f)"
| "py_float rt (JList xs) = Inl TypeError"
| "py_float rt (JDict kvs) = Inl TypeError"

text \<open>\<^verbatim>\<open>d.get(key, default)\<close>; only a dictionary has the method.\<close>

fun dict_get :: "json \<Rightarrow> string \<Rightarrow> json \<Rightarrow> py_error + json" where
  "dict_get (JDict kvs) key dflt = Inr (case map_of kvs key of None \<Rightarrow> dflt | Some v \<Rightarrow> v)"
| "dict_get _ key dflt = Inl AttributeError"

text \<open>
  \<^verbatim>\<open>for item in v\<close>: the elements of a list, the characters of a string, the keys of a
  dictionary; anything else is not iterable.
\<close>

fun py_iter :: "json \<Rightarrow> py_error + json list" where
  "py_iter (JList xs) = Inr xs"
| "py_iter (JStr s) = Inr (map (\<lambda>c. JStr [c]) s)"
| "py_iter (JDict kvs) = Inr (map (\<lambda>kv. JStr (fst kv)) kvs)"
| "py_iter _ = Inl TypeError"

section \<open>The item validator and the page normalizer\<close>

record line_item =
  item_name :: string
  item_amount :: pyfloat
  item_rate :: pyfloat
  item_quantity :: pyfloat

record page =
  page_no :: string
  page_type :: string
  bill_items :: "line_item list"

definition float_field :: "py_builtins \<Rightarrow> json \<Rightarrow> string \<Rightarrow> py_error + pyfloat" where
  "float_field rt item key =
     (case dict_get item key (JFloat (Fin 0)) of Inl e \<Rightarrow> Inl e | Inr v \<Rightarrow> py_float rt v)"

text \<open>The handler \<^verbatim>\<open>except (ValueError, TypeError): return None\<close>.\<close>

definition except_numeric :: "py_error \<Rightarrow> py_error + line_item option" where
  "except_numeric e = (if e = ValueError \<or> e = TypeError then Inr None else Inl e)"

definition validate_item :: "py_builtins \<Rightarrow> json \<Rightarrow> py_error + line_item option" where
  "validate_item rt item =
     (case dict_get item ''item_name'' (JStr []) of
        Inl e \<Rightarrow> Inl e
      | Inr v \<Rightarrow>
          (let name = py_strip (py_str rt v)
           in if name = [] \<or> length name < 2 then Inr None
              else if is_total_or_subtotal name then Inr None
              else
                (case float_field rt item ''item_amount'' of
                   Inl e \<Rightarrow> except_numeric e
                 | Inr amount \<Rightarrow>
                     (case float_field rt item ''item_rate'' of
                        Inl e \<Rightarrow> except_numeric e
                      | Inr rate \<Rightarrow>
                          (case float_field rt item ''item_quantity'' of
                             Inl e \<Rightarrow> except_numeric e
                           | Inr quantity \<Rightarrow>
                               Inr (Some \<lparr>item_name = name, item_amount = amount,
                                          item_rate = rate, item_quantity = quantity\<rparr>))))))"

fun normalize_page_type :: "json \<Rightarrow> py_error + string" where
  "normalize_page_type (JStr t) =
     (let page_type_lower = py_strip (py_lower t)
      in Inr (if py_contains ''pharmacy'' page_type_lower then ''Pharmacy''
              else if py_contains ''final'' page_type_lower then ''Final Bill''
              else ''Bill Detail''))"
| "normalize_page_type _ = Inl AttributeError"

text \<open>The loop of \<^verbatim>\<open>_validate_page\<close> over the raw items; \<open>acc\<close> is the list built so far.\<close>

fun validate_items :: "py_builtins \<Rightarrow> json list \<Rightarrow> line_item list \<Rightarrow> py_error + line_item list" where
  "validate_items rt [] acc = Inr acc"
| "validate_items rt (item # rest) acc =
     (case validate_item rt item of
        Inl e \<Rightarrow> Inl e
      | Inr None \<Rightarrow> validate_items rt rest acc
      | Inr (Some v) \<Rightarrow> validate_items rt rest (acc @ [v]))"

definition validate_page :: "py_builtins \<Rightarrow> json \<Rightarrow> py_error + page" where
  "validate_page rt pg =
     (case dict_get pg ''page_no'' (JStr ''1'') of
        Inl e \<Rightarrow> Inl e
      | Inr pn \<Rightarrow>
          (case dict_get pg ''page_type'' (JStr ''Bill Detail'') of
             Inl e \<Rightarrow> Inl e
           | Inr pt \<Rightarrow>
               (case normalize_page_type pt of
                  Inl e \<Rightarrow> Inl e
                | Inr npt \<Rightarrow>
                    (case dict_get pg ''bill_items'' (JList []) of
                       Inl e \<Rightarrow> Inl e
                     | Inr raw \<Rightarrow>
                         (case py_iter raw of
                            Inl e \<Rightarrow> Inl e
                          | Inr items \<Rightarrow>
                              (case validate_items rt items [] of
                                 Inl e \<Rightarrow> Inl e
                               | Inr vs \<Rightarrow>
                                   Inr \<lparr>page_no = py_str rt pn, page_type = npt,
                                        bill_items = vs\<rparr>))))))"

fun validate_pages :: "py_builtins \<Rightarrow> json list \<Rightarrow> page list \<Rightarrow> py_error + page list" where
  "validate_pages rt [] acc = Inr acc"
| "validate_pages rt (pg # rest) acc =
     (case validate_page rt pg of
        Inl e \<Rightarrow> Inl e
      | Inr v \<Rightarrow> validate_pages rt rest (acc @ [v]))"

section \<open>The similarity scorer\<close>

definition similarity_threshold :: pyfloat where
  "similarity_threshold = Fin (8 / 10)"

definition calculate_name_similarity :: "string \<Rightarrow> string \<Rightarrow> pyfloat" where
  "calculate_name_similarity name1 name2 =
     (let words1 = set (py_split name1); words2 = set (py_split name2)
      in if words1 = {} \<or> words2 = {} then Fin 0
         else
           (let intersection = card (words1 \<inter> words2); union = card (words1 \<union> words2)
            in if union = 0 then Fin 0 else Fin (real intersection / real union)))"

text \<open>
  \<^verbatim>\<open>_are_items_duplicate(item1, item2)\<close>. The second argument may carry more keys than
  a line item (a seen item has a page number), hence the record schemes.
\<close>

definition are_items_duplicate ::
  "'a line_item_scheme \<Rightarrow> 'b line_item_scheme \<Rightarrow> py_error + bool" where
  "are_items_duplicate item1 item2 =
     (let name1 = py_strip (py_lower (item_name item1));
          name2 = py_strip (py_lower (item_name item2))
      in if name1 = name2 then Inr True
         else
           (let name_similarity = calculate_name_similarity name1 name2;
                amount_diff = fabs (fsub (item_amount item1) (item_amount item2))
            in if fgt name_similarity similarity_threshold
               then (if flt amount_diff (Fin (1 / 100)) then Inr True
                     else
                       (case py_truediv amount_diff
                               (py_max (fabs (item_amount item1)) (Fin (1 / 100))) of
                          Inl e \<Rightarrow> Inl e
                        | Inr q \<Rightarrow> if flt q (Fin (5 / 100)) then Inr True else Inr False))
               else Inr False))"

section \<open>The cross-page deduplicator\<close>

record seen_item = line_item +
  seen_page_no :: string

text \<open>\<^verbatim>\<open>item.copy()\<close> with the key \<^verbatim>\<open>page_no\<close> added.\<close>

definition item_with_page :: "line_item \<Rightarrow> string \<Rightarrow> seen_item" where
  "item_with_page item pn =
     \<lparr>item_name = item_name item, item_amount = item_amount item,
      item_rate = item_rate item, item_quantity = item_quantity item, seen_page_no = pn\<rparr>"

text \<open>The inner loop: is the item a duplicate of a seen item? It stops at the first match.\<close>

fun scan_seen :: "line_item \<Rightarrow> seen_item list \<Rightarrow> py_error + bool" where
  "scan_seen item [] = Inr False"
| "scan_seen item (seen # rest) =
     (case are_items_duplicate item seen of
        Inl e \<Rightarrow> Inl e
      | Inr is_dup \<Rightarrow> if is_dup then Inr True else scan_seen item rest)"

text \<open>The loop over the items of one page; \<open>kept\<close> is the page's output list so far.\<close>

fun dedup_page_items ::
  "string \<Rightarrow> line_item list \<Rightarrow> seen_item list \<Rightarrow> line_item list
   \<Rightarrow> py_error + (seen_item list \<times> line_item list)" where
  "dedup_page_items pn [] seen_items kept = Inr (seen_items, kept)"
| "dedup_page_items pn (item # rest) seen_items kept =
     (case scan_seen item seen_items of
        Inl e \<Rightarrow> Inl e
      | Inr is_duplicate \<Rightarrow>
          if is_duplicate then dedup_page_items pn rest seen_items kept
          else dedup_page_items pn rest (seen_items @ [item_with_page item pn]) (kept @ [item]))"

text \<open>The loop over the pages.\<close>

fun dedup_pages :: "page list \<Rightarrow> seen_item list \<Rightarrow> page list \<Rightarrow> py_error + page list" where
  "dedup_pages [] seen_items acc = Inr acc"
| "dedup_pages (pg # rest) seen_items acc =
     (case dedup_page_items (page_no pg) (bill_items pg) seen_items [] of
        Inl e \<Rightarrow> Inl e
      | Inr (seen_items', kept) \<Rightarrow>
          dedup_pages rest seen_items'
            (acc @ [\<lparr>page_no = page_no pg, page_type = page_type pg, bill_items = kept\<rparr>]))"

definition deduplicate_items :: "page list \<Rightarrow> py_error + page list" where
  "deduplicate_items pages = dedup_pages pages [] []"

definition validate_and_deduplicate :: "py_builtins \<Rightarrow> json list \<Rightarrow> py_error + page list" where
  "validate_and_deduplicate rt pagewise_line_items =
     (if pagewise_line_items = [] then Inr []
      else
        (case validate_pages rt pagewise_line_items [] of
           Inl e \<Rightarrow> Inl e
         | Inr validated_pages \<Rightarrow> deduplicate_items validated_pages))"

section \<open>The reconciler\<close>



section \<open>Definitions used in the statements\<close>

text \<open>
  A runtime for the examples: no string reads as a float, and the text of a float, a list
  or a dictionary is empty. The examples never ask for either.
\<close>

definition example_builtins :: py_builtins where
  "example_builtins = \<lparr>float_of_str = (\<lambda>s. None), str_of_other = (\<lambda>v. [])\<rparr>"

text \<open>A raw item that has a name and nothing else.\<close>

definition named_item :: "string \<Rightarrow> json" where
  "named_item n = JDict [(''item_name'', JStr n)]"

text \<open>
  The classifier as section 4.2 of the specification words it: the keyword is cut out of
  the lowered name and what is left is compared as it stands, without trimming.
\<close>

definition flagged_as_stated :: "string \<Rightarrow> bool" where
  "flagged_as_stated nm =
     (\<exists>keyword \<in> set total_keywords.
        py_contains keyword (py_lower nm) \<and> length (py_lower nm) < 30 \<and>
        py_remove keyword (py_lower nm) \<in> {'''', ''-'', '':'', ''=''})"

text \<open>The verdict of the similarity scorer as a truth value.\<close>

definition is_dup :: "'a line_item_scheme \<Rightarrow> 'b line_item_scheme \<Rightarrow> bool" where
  "is_dup a b = (are_items_duplicate a b = Inr True)"

text \<open>
  The deduplicator as section 4.5 of the specification words it, on a plain list of items:
  \<open>K\<close> holds the items kept so far; an item that matches one of them is dropped, any other
  item is kept and joins them.
\<close>

fun keep_new :: "line_item list \<Rightarrow> line_item list \<Rightarrow> line_item list" where
  "keep_new K [] = []"
| "keep_new K (x # xs) =
     (if \<exists>k \<in> set K. is_dup x k then keep_new K xs else x # keep_new (K @ [x]) xs)"

fun dedup_spec :: "line_item list \<Rightarrow> page list \<Rightarrow> page list" where
  "dedup_spec K [] = []"
| "dedup_spec K (pg # rest) =
     pg\<lparr>bill_items := keep_new K (bill_items pg)\<rparr>
       # dedup_spec (K @ keep_new K (bill_items pg)) rest"

text \<open>A seen item without its page number, and the items of all pages in scan order.\<close>

definition seen_line :: "seen_item \<Rightarrow> line_item" where
  "seen_line s = \<lparr>item_name = item_name s, item_amount = item_amount s,
      item_rate = item_rate s, item_quantity = item_quantity s\<rparr>"

definition all_items :: "page list \<Rightarrow> line_item list" where
  "all_items pages = concat (map bill_items pages)"

text \<open>Example data: an item with a finite amount, bought once.\<close>

definition priced :: "string \<Rightarrow> real \<Rightarrow> line_item" where
  "priced n a = \<lparr>item_name = n, item_amount = Fin a, item_rate = Fin a, item_quantity = Fin 1\<rparr>"

definition ward_day :: line_item where
  "ward_day = priced ''City Hospital Room Rent Day'' 100"

definition ward_day_care :: line_item where
  "ward_day_care = priced ''City Hospital Room Rent Day Care'' 100"

definition ward_day_care_again :: line_item where
  "ward_day_care_again = priced ''City Hospital Room Rent Day Care'' 500"

definition ward_pages :: "page list" where
  "ward_pages =
     [\<lparr>page_no = ''1'', page_type = ''Bill Detail'', bill_items = [ward_day, ward_day_care]\<rparr>,
      \<lparr>page_no = ''2'', page_type = ''Final Bill'', bill_items = [ward_day_care_again]\<rparr>]"

definition ward_pages_out :: "page list" where
  "ward_pages_out =
     [\<lparr>page_no = ''1'', page_type = ''Bill Detail'', bill_items = [ward_day]\<rparr>,
      \<lparr>page_no = ''2'', page_type = ''Final Bill'', bill_items = [ward_day_care_again]\<rparr>]"

definition one_page :: "line_item list \<Rightarrow> page" where
  "one_page xs = \<lparr>page_no = ''1'', page_type = ''Bill Detail'', bill_items = xs\<rparr>"

definition paracetamol_tab :: line_item where
  "paracetamol_tab = priced ''Paracetamol Tab'' 100"

definition paracetamol_tablet :: line_item where
  "paracetamol_tablet = priced ''Paracetamol Tablet'' (201 / 2)"

definition paracetamol_100 :: line_item where
  "paracetamol_100 = priced ''Paracetamol'' 100"

definition paracetamol_500 :: line_item where
  "paracetamol_500 = priced ''Paracetamol'' 500"

definition gauze_pack :: line_item where
  "gauze_pack = priced ''Sterile Gauze Swab Pack Large'' 1000"

definition gauze_box :: line_item where
  "gauze_box = priced ''Sterile Gauze Swab Pack Large Box'' 1052"

text \<open>The dictionary that the item validator returns, read as a raw item again.\<close>

definition item_json :: "line_item \<Rightarrow> json" where
  "item_json it =
     JDict [(''item_name'', JStr (item_name it)), (''item_amount'', JFloat (item_amount it)),
            (''item_rate'', JFloat (item_rate it)), (''item_quantity'', JFloat (item_quantity it))]"

text \<open>The raw items that \<^verbatim>\<open>_validate_page\<close> iterates over; none when it raises.\<close>

definition raw_items_of :: "json \<Rightarrow> json list" where
  "raw_items_of pg =
     (case dict_get pg ''bill_items'' (JList []) of
        Inl e \<Rightarrow> []
      | Inr raw \<Rightarrow> (case py_iter raw of Inl e \<Rightarrow> [] | Inr items \<Rightarrow> items))"

text \<open>Example data for the item validator and the page normalizer.\<close>

definition consultation_raw :: json where
  "consultation_raw =
     JDict [(''item_name'', JStr ''  Consultation Fee ''), (''item_amount'', JInt 500),
            (''item_rate'', JFloat (Fin 250)), (''item_quantity'', JInt 2)]"

definition consultation_item :: line_item where
  "consultation_item =
     \<lparr>item_name = ''Consultation Fee'', item_amount = Fin 500, item_rate = Fin 250,
      item_quantity = Fin 2\<rparr>"

definition null_name_raw :: json where
  "null_name_raw = JDict [(''item_name'', JNull), (''item_amount'', JFloat (Fin 75))]"

definition nameless_raw :: json where
  "nameless_raw = JDict [(''item_amount'', JFloat (Fin 75))]"

definition xray_item :: line_item where
  "xray_item =
     \<lparr>item_name = ''X-Ray Chest'', item_amount = PInf, item_rate = NaN, item_quantity = Fin 1\<rparr>"

definition infinite_amount_pages :: "json list" where
  "infinite_amount_pages =
     [JDict [(''page_no'', JStr ''1''), (''page_type'', JStr ''Bill Detail''),
             (''bill_items'',
              JList [JDict [(''item_name'', JStr ''X-Ray Chest''), (''item_amount'', JFloat PInf),
                            (''item_rate'', JFloat NaN), (''item_quantity'', JInt 1)]])]]"

definition null_type_page :: json where
  "null_type_page =
     JDict [(''page_no'', JStr ''1''), (''page_type'', JNull), (''bill_items'', JList [])]"

definition null_items_page :: json where
  "null_items_page =
     JDict [(''page_no'', JStr ''1''), (''page_type'', JStr ''Bill Detail''),
            (''bill_items'', JNull)]"


text \<open>
  The reconciliation example of section 8 of the specification: three pages, the item of
  the second a duplicate of the item of the first.
\<close>

definition visit_pages :: "json list" where
  "visit_pages =
     [JDict [(''page_no'', JStr ''1''), (''page_type'', JStr ''Bill Detail''),
             (''bill_items'',
              JList [JDict [(''item_name'', JStr ''Consultation''),
                            (''item_amount'', JFloat (Fin (21 / 2)))]])],
      JDict [(''page_no'', JStr ''2''), (''page_type'', JStr ''Final Bill''),
             (''bill_items'',
              JList [JDict [(''item_name'', JStr ''Consultation''),
                            (''item_amount'', JFloat (Fin (21 / 2)))]])],
      JDict [(''page_no'', JStr ''3''), (''page_type'', JStr ''Pharmacy''),
             (''bill_items'',
              JList [JDict [(''item_name'', JStr ''Dressing''),
                            (''item_amount'', JFloat (Fin 20))]])]]"

definition visit_pages_out :: "page list" where
  "visit_pages_out =
     [\<lparr>page_no = ''1'', page_type = ''Bill Detail'',
       bill_items = [\<lparr>item_name = ''Consultation'', item_amount = Fin (21 / 2),
                      item_rate = Fin 0, item_quantity = Fin 0\<rparr>]\<rparr>,
      \<lparr>page_no = ''2'', page_type = ''Final Bill'', bill_items = []\<rparr>,
      \<lparr>page_no = ''3'', page_type = ''Pharmacy'',
       bill_items = [\<lparr>item_name = ''Dressing'', item_amount = Fin 20,
                      item_rate = Fin 0, item_quantity = Fin 0\<rparr>]\<rparr>]"

definition dressing_entry :: line_item where
  "dressing_entry =
     \<lparr>item_name = ''Dressing'', item_amount = Fin 20, item_rate = Fin 0, item_quantity = Fin 0\<rparr>"

definition dressing_page :: page where
  "dressing_page = \<lparr>page_no = ''3'', page_type = ''Pharmacy'', bill_items = [dressing_entry]\<rparr>"

section \<open>Strings: trimming and lowering\<close>

lemma py_isspace_lower_char: "py_isspace (py_lower_char c) = py_isspace c"
  unfolding py_isspace_def py_lower_char_def Let_def by auto

lemma py_lstrip_lower: "py_lstrip (py_lower s) = py_lower (py_lstrip s)"
  unfolding py_lstrip_def py_lower_def
  by (simp add: dropWhile_map comp_def py_isspace_lower_char)

lemma py_rstrip_lower: "py_rstrip (py_lower s) = py_lower (py_rstrip s)"
  unfolding py_rstrip_def py_lower_def
  by (simp add: dropWhile_map comp_def py_isspace_lower_char rev_map)

lemma py_strip_lower: "py_strip (py_lower s) = py_lower (py_strip s)"
  by (simp add: py_strip_def py_lstrip_lower py_rstrip_lower)

lemma dropWhile_fixed: "xs = [] \<or> \<not> P (hd xs) \<Longrightarrow> dropWhile P xs = xs"
  by (cases xs) auto

lemma py_lstrip_hd: "py_lstrip s = [] \<or> \<not> py_isspace (hd (py_lstrip s))"
  unfolding py_lstrip_def using hd_dropWhile by blast

text \<open>Trimming on the right leaves the first character where it is.\<close>

lemma py_rstrip_keeps_hd:
  assumes "t = [] \<or> \<not> py_isspace (hd t)"
  shows "py_rstrip t = [] \<or> \<not> py_isspace (hd (py_rstrip t))"
proof (cases "py_rstrip t = []")
  case True
  then show ?thesis by simp
next
  case False
  have "\<exists>zs. t = py_rstrip t @ zs"
    unfolding py_rstrip_def
    by (metis rev_append rev_rev_ident takeWhile_dropWhile_id)
  then obtain zs where "t = py_rstrip t @ zs" ..
  with False have "hd t = hd (py_rstrip t)" by (metis hd_append2)
  with assms False show ?thesis by (cases t) (auto simp: py_rstrip_def)
qed

lemma py_rstrip_idem: "py_rstrip (py_rstrip s) = py_rstrip s"
  unfolding py_rstrip_def by simp

lemma py_strip_idem: "py_strip (py_strip s) = py_strip s"
proof -
  have "py_lstrip (py_strip s) = py_strip s"
    unfolding py_strip_def
    using py_rstrip_keeps_hd [OF py_lstrip_hd, of s]
    by (simp add: py_lstrip_def dropWhile_fixed)
  then show ?thesis
    by (metis py_strip_def py_rstrip_idem)
qed

section \<open>The classifier\<close>

lemma total_loop_iff:
  "total_loop l kws \<longleftrightarrow>
     (\<exists>keyword \<in> set kws. py_contains keyword l \<and> length l < 30 \<and>
        py_strip (py_remove keyword l) \<in> {'''', ''-'', '':'', ''=''})"
  by (induction kws) auto

lemma is_total_or_subtotal_trimmed:
  assumes "py_strip nm = nm"
  shows "is_total_or_subtotal nm \<longleftrightarrow>
     (\<exists>keyword \<in> set total_keywords.
        py_contains keyword (py_lower nm) \<and> length (py_lower nm) < 30 \<and>
        py_strip (py_remove keyword (py_lower nm)) \<in> {'''', ''-'', '':'', ''=''})"
  using assms by (simp add: is_total_or_subtotal_def total_loop_iff py_strip_lower)

lemma validate_item_named:
  "validate_item rt (named_item n) =
     (if length (py_strip n) < 2 \<or> is_total_or_subtotal (py_strip n) then Inr None
      else Inr (Some \<lparr>item_name = py_strip n, item_amount = Fin 0, item_rate = Fin 0,
                      item_quantity = Fin 0\<rparr>))"
  by (auto simp: validate_item_def named_item_def float_field_def Let_def)

lemma rejected_names:
  "py_strip ''Total:'' = ''Total:''" "is_total_or_subtotal ''Total:''"
  "py_strip ''Grand Total'' = ''Grand Total''" "is_total_or_subtotal ''Grand Total''"
  "py_strip ''Sub-Total ='' = ''Sub-Total =''" "is_total_or_subtotal ''Sub-Total =''"
  by code_simp+

lemma accepted_names:
  "py_strip ''Total Antibiotics'' = ''Total Antibiotics''"
  "\<not> is_total_or_subtotal ''Total Antibiotics''"
  "py_strip ''Total Knee Replacement'' = ''Total Knee Replacement''"
  "\<not> is_total_or_subtotal ''Total Knee Replacement''"
  "py_strip ''Antibiotics Total Course'' = ''Antibiotics Total Course''"
  "\<not> is_total_or_subtotal ''Antibiotics Total Course''"
  by code_simp+

section \<open>The scorer never raises; the deduplicator refines its specification\<close>

lemma divisor_not_zero: "py_max (fabs a) (Fin (1 / 100)) \<noteq> Fin 0"
  by (cases a) (auto simp: py_max_def fgt_def)

lemma py_truediv_defined: "d \<noteq> Fin 0 \<Longrightarrow> \<exists>q. py_truediv n d = Inr q"
  by (cases d; cases n) auto

lemma are_items_duplicate_total: "are_items_duplicate a b = Inr (is_dup a b)"
proof -
  obtain q where q: "py_truediv (fabs (fsub (item_amount a) (item_amount b)))
      (py_max (fabs (item_amount a)) (Fin (1 / 100))) = Inr q"
    using py_truediv_defined [OF divisor_not_zero] by blast
  show ?thesis
    unfolding is_dup_def are_items_duplicate_def Let_def
    by (simp add: q)
qed

lemma is_dup_item_with_page: "is_dup x (item_with_page k pn) = is_dup x k"
  by (simp add: is_dup_def are_items_duplicate_def item_with_page_def Let_def)

lemma is_dup_seen_line: "is_dup x (seen_line s) = is_dup x s"
  by (simp add: is_dup_def are_items_duplicate_def seen_line_def Let_def)

lemma seen_line_item_with_page: "seen_line (item_with_page k pn) = k"
  by (simp add: seen_line_def item_with_page_def)

lemma scan_seen_eq: "scan_seen x seen = Inr (\<exists>s \<in> set seen. is_dup x (seen_line s))"
  by (induction seen) (auto simp: are_items_duplicate_total is_dup_seen_line)

lemma dedup_page_items_eq:
  "dedup_page_items pn xs seen kept =
     Inr (seen @ map (\<lambda>x. item_with_page x pn) (keep_new (map seen_line seen) xs),
          kept @ keep_new (map seen_line seen) xs)"
proof (induction xs arbitrary: seen kept)
  case Nil
  then show ?case by simp
next
  case (Cons x xs)
  show ?case
    by (simp add: scan_seen_eq Cons.IH seen_line_item_with_page)
qed

lemma dedup_pages_eq:
  "dedup_pages ps seen acc = Inr (acc @ dedup_spec (map seen_line seen) ps)"
proof (induction ps arbitrary: seen acc)
  case Nil
  then show ?case by simp
next
  case (Cons pg ps)
  have "map seen_line (map (\<lambda>x. item_with_page x (page_no pg)) ys) = ys" for ys
    by (simp add: seen_line_item_with_page comp_def)
  then show ?case
    by (simp add: dedup_page_items_eq Cons.IH)
qed

lemma deduplicate_items_eq: "deduplicate_items pages = Inr (dedup_spec [] pages)"
  by (simp add: deduplicate_items_def dedup_pages_eq)

lemma keep_new_append:
  "keep_new K (A @ B) = keep_new K A @ keep_new (K @ keep_new K A) B"
  by (induction A arbitrary: K) auto

lemma keep_new_snoc:
  "keep_new K (A @ [x]) =
     keep_new K A @ (if \<exists>k \<in> set (K @ keep_new K A). is_dup x k then [] else [x])"
  by (simp add: keep_new_append)

lemma subseq_keep_new: "subseq (keep_new K xs) xs"
  by (induction xs arbitrary: K) auto

lemma keep_new_unmatched:
  "keep_new K xs = A @ x # B \<Longrightarrow> k \<in> set K \<union> set A \<Longrightarrow> \<not> is_dup x k"
proof (induction xs arbitrary: K A)
  case Nil
  then show ?case by simp
next
  case (Cons y ys)
  show ?case
  proof (cases "\<exists>k \<in> set K. is_dup y k")
    case True
    with Cons.prems have "keep_new K ys = A @ x # B" by simp
    from Cons.IH [OF this] Cons.prems(2) show ?thesis by simp
  next
    case False
    with Cons.prems have eq: "y # keep_new (K @ [y]) ys = A @ x # B" by simp
    show ?thesis
    proof (cases "A = []")
      case True
      with eq have "x = y" by simp
      with False True Cons.prems(2) show ?thesis by auto
    next
      case nonempty: False
      then obtain a A' where A: "A = a # A'" by (cases A) auto
      with eq have "a = y" and rest: "keep_new (K @ [y]) ys = A' @ x # B" by auto
      from Cons.IH [OF rest] Cons.prems(2) \<open>a = y\<close> A show ?thesis by auto
    qed
  qed
qed

lemma keep_new_covers:
  "x \<in> set xs \<Longrightarrow> \<exists>k \<in> set K \<union> set (keep_new K xs). is_dup x k"
proof (induction xs arbitrary: K)
  case Nil
  then show ?case by simp
next
  case (Cons y ys)
  have self: "is_dup y y"
    by (simp add: is_dup_def are_items_duplicate_def)
  show ?case
  proof (cases "x = y")
    case True
    with self show ?thesis by auto
  next
    case False
    with Cons.prems have "x \<in> set ys" by simp
    from Cons.IH [OF this, of K] Cons.IH [OF this, of "K @ [y]"]
    show ?thesis by auto
  qed
qed

lemma dedup_spec_identity:
  "list_all2 (\<lambda>out_page in_page.
       page_no out_page = page_no in_page \<and> page_type out_page = page_type in_page \<and>
       subseq (bill_items out_page) (bill_items in_page))
     (dedup_spec K ps) ps"
  by (induction ps arbitrary: K) (auto simp: subseq_keep_new)

lemma all_items_dedup_spec: "all_items (dedup_spec K ps) = keep_new K (all_items ps)"
  by (induction ps arbitrary: K) (auto simp: all_items_def keep_new_append)

lemma dedup_spec_nth:
  "i < length ps \<Longrightarrow>
   bill_items (dedup_spec K ps ! i) =
     keep_new (K @ keep_new K (all_items (take i ps))) (bill_items (ps ! i))"
proof (induction ps arbitrary: K i)
  case Nil
  then show ?case by simp
next
  case (Cons pg ps)
  show ?case
  proof (cases i)
    case 0
    then show ?thesis by (simp add: all_items_def)
  next
    case (Suc j)
    with Cons.prems have "j < length ps" by simp
    from Cons.IH [OF this] Suc show ?thesis
      by (simp add: all_items_def keep_new_append)
  qed
qed

lemma take_dedup_spec: "take i (dedup_spec K ps) = dedup_spec K (take i ps)"
proof (induction ps arbitrary: K i)
  case Nil
  then show ?case by simp
next
  case (Cons pg ps)
  then show ?case by (cases i) simp_all
qed

lemma length_dedup_spec: "length (dedup_spec K ps) = length ps"
  by (induction ps arbitrary: K) auto

lemma ward_run: "deduplicate_items ward_pages = Inr ward_pages_out"
  by code_simp

section \<open>The item validator: what it accepts\<close>

lemma except_numeric_not_Some: "except_numeric e \<noteq> Inr (Some it)"
  by (simp add: except_numeric_def)

lemma validate_item_SomeD:
  assumes "validate_item rt item = Inr (Some it)"
  shows "\<exists>v a r q. dict_get item ''item_name'' (JStr []) = Inr v
           \<and> float_field rt item ''item_amount'' = Inr a
           \<and> float_field rt item ''item_rate'' = Inr r
           \<and> float_field rt item ''item_quantity'' = Inr q
           \<and> it = \<lparr>item_name = py_strip (py_str rt v), item_amount = a, item_rate = r,
                    item_quantity = q\<rparr>
           \<and> 2 \<le> length (py_strip (py_str rt v))
           \<and> \<not> is_total_or_subtotal (py_strip (py_str rt v))"
  using assms unfolding validate_item_def Let_def
  by (auto split: sum.splits if_splits simp: except_numeric_not_Some)

lemma validate_item_accepts:
  assumes "dict_get item ''item_name'' (JStr []) = Inr v"
    and "float_field rt item ''item_amount'' = Inr a"
    and "float_field rt item ''item_rate'' = Inr r"
    and "float_field rt item ''item_quantity'' = Inr q"
    and "2 \<le> length (py_strip (py_str rt v))"
    and "\<not> is_total_or_subtotal (py_strip (py_str rt v))"
  shows "validate_item rt item =
           Inr (Some \<lparr>item_name = py_strip (py_str rt v), item_amount = a, item_rate = r,
                      item_quantity = q\<rparr>)"
  using assms unfolding validate_item_def Let_def by auto

lemma validate_item_short_name:
  assumes "dict_get item ''item_name'' (JStr []) = Inr v"
    and "length (py_strip (py_str rt v)) < 2"
  shows "validate_item rt item = Inr None"
  using assms unfolding validate_item_def Let_def by auto

lemma item_json_fields:
  "dict_get (item_json it) ''item_name'' (JStr []) = Inr (JStr (item_name it))"
  "float_field rt (item_json it) ''item_amount'' = Inr (item_amount it)"
  "float_field rt (item_json it) ''item_rate'' = Inr (item_rate it)"
  "float_field rt (item_json it) ''item_quantity'' = Inr (item_quantity it)"
  by (simp_all add: item_json_def float_field_def)

lemma validate_item_item_json:
  assumes "py_strip (item_name it) = item_name it" and "2 \<le> length (item_name it)"
    and "\<not> is_total_or_subtotal (item_name it)"
  shows "validate_item rt (item_json it) = Inr (Some it)"
  using validate_item_accepts [OF item_json_fields, of rt it] assms by simp

lemma validated_item_name:
  assumes "validate_item rt item = Inr (Some it)"
  shows "py_strip (item_name it) = item_name it \<and> 2 \<le> length (item_name it)
         \<and> \<not> is_total_or_subtotal (item_name it)"
  using validate_item_SomeD [OF assms] by (auto simp: py_strip_idem)

lemma None_name: "py_strip ''None'' = ''None''" "\<not> is_total_or_subtotal ''None''"
  by code_simp+

lemma validate_items_sound:
  "validate_items rt raws acc = Inr vs \<Longrightarrow> it \<in> set vs \<Longrightarrow>
   it \<in> set acc \<or> (\<exists>raw \<in> set raws. validate_item rt raw = Inr (Some it))"
proof (induction raws arbitrary: acc)
  case Nil
  then show ?case by simp
next
  case (Cons raw raws)
  show ?case
  proof (cases "validate_item rt raw")
    case (Inl e)
    with Cons.prems show ?thesis by simp
  next
    case (Inr res)
    show ?thesis
    proof (cases res)
      case None
      with Inr Cons.prems have "validate_items rt raws acc = Inr vs" by simp
      from Cons.IH [OF this Cons.prems(2)] show ?thesis by auto
    next
      case (Some v)
      with Inr Cons.prems have "validate_items rt raws (acc @ [v]) = Inr vs" by simp
      from Cons.IH [OF this Cons.prems(2)] Inr Some show ?thesis by auto
    qed
  qed
qed

lemma validate_page_sound:
  assumes "validate_page rt pg = Inr p" and "it \<in> set (bill_items p)"
  shows "\<exists>raw \<in> set (raw_items_of pg). validate_item rt raw = Inr (Some it)"
proof -
  from assms(1) obtain raw items vs where
    "dict_get pg ''bill_items'' (JList []) = Inr raw" "py_iter raw = Inr items"
    "validate_items rt items [] = Inr vs" "bill_items p = vs"
    unfolding validate_page_def by (auto split: sum.splits)
  with validate_items_sound [of rt items "[]" vs it] assms(2)
  show ?thesis by (simp add: raw_items_of_def)
qed

lemma validate_pages_sound:
  "validate_pages rt raws acc = Inr ps \<Longrightarrow> p \<in> set ps \<Longrightarrow>
   p \<in> set acc \<or> (\<exists>pg \<in> set raws. validate_page rt pg = Inr p)"
proof (induction raws arbitrary: acc)
  case Nil
  then show ?case by simp
next
  case (Cons pg raws)
  then obtain v where v: "validate_page rt pg = Inr v"
    and rest: "validate_pages rt raws (acc @ [v]) = Inr ps"
    by (auto split: sum.splits)
  from Cons.IH [OF rest Cons.prems(2)] v show ?case by auto
qed

lemma set_keep_new: "set (keep_new K xs) \<subseteq> set xs"
  using subseq_keep_new [of K xs] by (metis set_nths_subset subseq_conv_nths)

lemma deduplicate_items_sound:
  assumes "deduplicate_items vps = Inr out" and "pg \<in> set out" and "it \<in> set (bill_items pg)"
  shows "\<exists>vp \<in> set vps. it \<in> set (bill_items vp)"
proof -
  from assms(1) have "out = dedup_spec [] vps" by (simp add: deduplicate_items_eq)
  then have "all_items out = keep_new [] (all_items vps)" by (simp add: all_items_dedup_spec)
  moreover from assms(2,3) have "it \<in> set (all_items out)" by (auto simp: all_items_def)
  ultimately have "it \<in> set (all_items vps)" using set_keep_new by fastforce
  then show ?thesis by (auto simp: all_items_def)
qed

section \<open>The reconciler: sums and rounding\<close>








text \<open>
  Claim C4, as stated, fails. With the residue compared untrimmed, the name
  \<^verbatim>\<open>Sub-Total =\<close> would not be flagged: cutting \<^verbatim>\<open>sub-total\<close> out of it leaves a space
  and the equals sign. The code trims the residue and flags the name.
\<close>

theorem total_residue_untrimmed_counterexample:
  "is_total_or_subtotal ''Sub-Total ='' \<and> \<not> flagged_as_stated ''Sub-Total =''"
  by code_simp

text \<open>
  Claim C4, amended. A trimmed name is flagged as a total line if and only if some keyword
  of the fixed list occurs in the lowered name, the lowered name is shorter than 30
  characters, and what is left after cutting the keyword out and trimming white space is
  the empty string, \<^verbatim>\<open>-\<close>, \<^verbatim>\<open>:\<close> or \<^verbatim>\<open>=\<close>. The item validator rejects the names
  \<^verbatim>\<open>Total:\<close>, \<^verbatim>\<open>Grand Total\<close> and \<^verbatim>\<open>Sub-Total =\<close>, and accepts \<^verbatim>\<open>Total Antibiotics\<close>,
  \<^verbatim>\<open>Total Knee Replacement\<close> and \<^verbatim>\<open>Antibiotics Total Course\<close>.
\<close>

theorem total_classifier_trimmed_residue:
  "(py_strip nm = nm \<longrightarrow>
     (is_total_or_subtotal nm \<longleftrightarrow>
       (\<exists>keyword \<in> set total_keywords.
          py_contains keyword (py_lower nm) \<and> length (py_lower nm) < 30 \<and>
          py_strip (py_remove keyword (py_lower nm)) \<in> {'''', ''-'', '':'', ''=''})))
   \<and> validate_item rt (named_item ''Total:'') = Inr None
   \<and> validate_item rt (named_item ''Grand Total'') = Inr None
   \<and> validate_item rt (named_item ''Sub-Total ='') = Inr None
   \<and> validate_item rt (named_item ''Total Antibiotics'') =
        Inr (Some \<lparr>item_name = ''Total Antibiotics'', item_amount = Fin 0, item_rate = Fin 0,
                   item_quantity = Fin 0\<rparr>)
   \<and> validate_item rt (named_item ''Total Knee Replacement'') =
        Inr (Some \<lparr>item_name = ''Total Knee Replacement'', item_amount = Fin 0,
                   item_rate = Fin 0, item_quantity = Fin 0\<rparr>)
   \<and> validate_item rt (named_item ''Antibiotics Total Course'') =
        Inr (Some \<lparr>item_name = ''Antibiotics Total Course'', item_amount = Fin 0,
                   item_rate = Fin 0, item_quantity = Fin 0\<rparr>)"
proof -
  have "validate_item rt (named_item ''Total:'') = Inr None"
    "validate_item rt (named_item ''Grand Total'') = Inr None"
    "validate_item rt (named_item ''Sub-Total ='') = Inr None"
    by (simp_all only: validate_item_named rejected_names) simp_all
  moreover have "validate_item rt (named_item ''Total Antibiotics'') =
        Inr (Some \<lparr>item_name = ''Total Antibiotics'', item_amount = Fin 0, item_rate = Fin 0,
                   item_quantity = Fin 0\<rparr>)"
    "validate_item rt (named_item ''Total Knee Replacement'') =
        Inr (Some \<lparr>item_name = ''Total Knee Replacement'', item_amount = Fin 0,
                   item_rate = Fin 0, item_quantity = Fin 0\<rparr>)"
    "validate_item rt (named_item ''Antibiotics Total Course'') =
        Inr (Some \<lparr>item_name = ''Antibiotics Total Course'', item_amount = Fin 0,
                   item_rate = Fin 0, item_quantity = Fin 0\<rparr>)"
    by (simp_all only: validate_item_named accepted_names) simp_all
  ultimately show ?thesis
    using is_total_or_subtotal_trimmed by blast
qed

theorem total_classifier_trimmed_residue_witness:
  "py_strip ''Sub-Total ='' = ''Sub-Total =''
   \<and> is_total_or_subtotal ''Sub-Total =''
   \<and> py_contains ''sub-total'' (py_lower ''Sub-Total ='')
   \<and> py_strip (py_remove ''sub-total'' (py_lower ''Sub-Total ='')) = ''=''
   \<and> validate_item example_builtins (named_item ''Sub-Total ='') = Inr None"
proof -
  have "py_contains ''sub-total'' (py_lower ''Sub-Total ='')"
    "py_strip (py_remove ''sub-total'' (py_lower ''Sub-Total ='')) = ''=''"
    by code_simp+
  then show ?thesis
    using total_classifier_trimmed_residue [of "''Sub-Total =''" example_builtins]
      rejected_names by simp
qed

section \<open>Deduplication\<close>

text \<open>
  Claim C1, as stated, fails in its last clause. On the pages below the second and the
  third item have the same name, so each is a duplicate of the other. The second is
  removed for matching the first item; the third matches only the removed second item, not
  the kept first one (the amounts 500 and 100 are too far apart), and survives. So the
  first occurrence of the pair is removed and the later one is kept.
\<close>

theorem later_duplicate_survives_counterexample:
  "deduplicate_items ward_pages = Inr ward_pages_out
   \<and> are_items_duplicate ward_day_care_again ward_day_care = Inr True
   \<and> are_items_duplicate ward_day_care ward_day_care_again = Inr True
   \<and> ward_day_care \<notin> set (all_items ward_pages_out)
   \<and> ward_day_care_again \<in> set (all_items ward_pages_out)"
  by code_simp

text \<open>
  Claim C1, amended. The deduplicator never raises. It returns the same pages in the same
  order, each with its number and type and with a subsequence of its items, possibly
  empty. An item is kept if and only if it matches no previously kept item: the items of
  output page \<open>i\<close> are those of input page \<open>i\<close> filtered by \<open>keep_new\<close> against the items
  of the earlier output pages, and for every position of the scan the output begins with
  the items kept before it, followed by the item at that position exactly when it matches
  none of them. Hence no kept item matches an earlier kept item, and every input item
  matches some kept item. An item that matches only removed items is kept.
\<close>

theorem deduplicate_items_keeps_unmatched:
  "\<exists>out. deduplicate_items pages = Inr out
     \<and> list_all2 (\<lambda>out_page in_page.
           page_no out_page = page_no in_page \<and> page_type out_page = page_type in_page \<and>
           subseq (bill_items out_page) (bill_items in_page)) out pages
     \<and> (\<forall>i < length pages.
           bill_items (out ! i) = keep_new (all_items (take i out)) (bill_items (pages ! i)))
     \<and> (\<forall>A x B. all_items pages = A @ x # B \<longrightarrow>
           prefix (keep_new [] A @ (if \<exists>k \<in> set (keep_new [] A). is_dup x k then [] else [x]))
             (all_items out))
     \<and> (\<forall>A x B. all_items out = A @ x # B \<longrightarrow> (\<forall>k \<in> set A. \<not> is_dup x k))
     \<and> (\<forall>x \<in> set (all_items pages). \<exists>k \<in> set (all_items out). is_dup x k)"
proof -
  let ?out = "dedup_spec [] pages"
  have run: "deduplicate_items pages = Inr ?out"
    by (rule deduplicate_items_eq)
  have flat: "all_items ?out = keep_new [] (all_items pages)"
    by (rule all_items_dedup_spec)
  have pages: "\<forall>i < length pages.
      bill_items (?out ! i) = keep_new (all_items (take i ?out)) (bill_items (pages ! i))"
    by (simp add: dedup_spec_nth take_dedup_spec all_items_dedup_spec)
  have scan: "\<forall>A x B. all_items pages = A @ x # B \<longrightarrow>
      prefix (keep_new [] A @ (if \<exists>k \<in> set (keep_new [] A). is_dup x k then [] else [x]))
        (all_items ?out)"
  proof (intro allI impI)
    fix A x B
    assume "all_items pages = A @ x # B"
    then have "all_items ?out = keep_new [] ((A @ [x]) @ B)"
      by (simp add: flat)
    also have "\<dots> = keep_new [] (A @ [x]) @ keep_new ([] @ keep_new [] (A @ [x])) B"
      by (rule keep_new_append)
    finally show "prefix (keep_new [] A @ (if \<exists>k \<in> set (keep_new [] A). is_dup x k then [] else [x]))
        (all_items ?out)"
      using keep_new_snoc [of "[]" A x] by (simp add: prefix_def)
  qed
  have unmatched: "\<forall>A x B. all_items ?out = A @ x # B \<longrightarrow> (\<forall>k \<in> set A. \<not> is_dup x k)"
    using keep_new_unmatched [of "[]" "all_items pages"] by (simp add: flat)
  have covered: "\<forall>x \<in> set (all_items pages). \<exists>k \<in> set (all_items ?out). is_dup x k"
    using keep_new_covers [of _ "all_items pages" "[]"] by (simp add: flat)
  from run dedup_spec_identity [of "[]" pages] pages scan unmatched covered
  show ?thesis by blast
qed

theorem deduplicate_items_keeps_unmatched_witness:
  "deduplicate_items ward_pages = Inr ward_pages_out
   \<and> all_items ward_pages_out = [ward_day, ward_day_care_again]
   \<and> \<not> is_dup ward_day_care_again ward_day
   \<and> is_dup ward_day_care ward_day"
proof -
  obtain out where out: "deduplicate_items ward_pages = Inr out"
    and unmatched: "\<forall>A x B. all_items out = A @ x # B \<longrightarrow> (\<forall>k \<in> set A. \<not> is_dup x k)"
    using deduplicate_items_keeps_unmatched [of ward_pages] by blast
  from out ward_run have eq: "out = ward_pages_out" by simp
  have flat: "all_items ward_pages_out = [ward_day, ward_day_care_again]"
    by code_simp
  then have "all_items out = [ward_day] @ ward_day_care_again # []"
    by (simp add: eq)
  with unmatched have "\<forall>k \<in> set [ward_day]. \<not> is_dup ward_day_care_again k"
    by blast
  moreover have "is_dup ward_day_care ward_day"
    by code_simp
  ultimately show ?thesis
    using ward_run flat by simp
qed

section \<open>The similarity scorer\<close>

text \<open>
  Claim C5, as stated, fails. The names \<^verbatim>\<open>Paracetamol Tab\<close> and \<^verbatim>\<open>Paracetamol Tablet\<close>
  are compared word by word: \<^verbatim>\<open>tab\<close> and \<^verbatim>\<open>tablet\<close> are different words, so the scorer
  does not judge the two items duplicates, whichever comes first.
\<close>

theorem tab_and_tablet_merged_counterexample:
  "\<not> is_dup paracetamol_tab paracetamol_tablet \<and> \<not> is_dup paracetamol_tablet paracetamol_tab"
  by code_simp

text \<open>
  Claim C5, amended. The similarity scorer judges the items \<^verbatim>\<open>Paracetamol Tab\<close> (amount
  100.0) and \<^verbatim>\<open>Paracetamol Tablet\<close> (amount 100.5) not to be duplicates, in either
  order: the two names share one word of three, so the name similarity is 1/3, which is
  not above the threshold 0.8, and the amounts are not looked at. Both items are kept,
  on one page or on two.
\<close>

theorem tab_and_tablet_not_merged:
  "calculate_name_similarity (py_strip (py_lower (item_name paracetamol_tab)))
       (py_strip (py_lower (item_name paracetamol_tablet))) = Fin (1 / 3)
   \<and> \<not> fgt (Fin (1 / 3)) similarity_threshold
   \<and> are_items_duplicate paracetamol_tab paracetamol_tablet = Inr False
   \<and> are_items_duplicate paracetamol_tablet paracetamol_tab = Inr False
   \<and> deduplicate_items [one_page [paracetamol_tab, paracetamol_tablet]] =
        Inr [one_page [paracetamol_tab, paracetamol_tablet]]
   \<and> deduplicate_items [one_page [paracetamol_tab], one_page [paracetamol_tablet]] =
        Inr [one_page [paracetamol_tab], one_page [paracetamol_tablet]]"
  by code_simp

text \<open>
  Claim C6. If the lowered, trimmed names of two items are equal, the scorer declares them
  duplicates whatever their amounts are.
\<close>

theorem equal_names_are_duplicates:
  assumes "py_strip (py_lower (item_name item1)) = py_strip (py_lower (item_name item2))"
  shows "are_items_duplicate item1 item2 = Inr True"
  using assms by (simp add: are_items_duplicate_def)

text \<open>
  The example of the claim: two items named \<^verbatim>\<open>Paracetamol\<close> with the amounts 100.0 and
  500.0; the one on the second page is removed.
\<close>

theorem equal_names_are_duplicates_witness:
  "py_strip (py_lower (item_name paracetamol_100)) = py_strip (py_lower (item_name paracetamol_500))
   \<and> item_amount paracetamol_100 = Fin 100 \<and> item_amount paracetamol_500 = Fin 500
   \<and> are_items_duplicate paracetamol_500 paracetamol_100 = Inr True
   \<and> deduplicate_items [one_page [paracetamol_100], one_page [paracetamol_500]] =
        Inr [one_page [paracetamol_100], one_page []]"
proof -
  have names: "py_strip (py_lower (item_name paracetamol_500)) =
      py_strip (py_lower (item_name paracetamol_100))"
    by code_simp
  have amounts: "item_amount paracetamol_100 = Fin 100" "item_amount paracetamol_500 = Fin 500"
    by (simp_all add: paracetamol_100_def paracetamol_500_def priced_def)
  have run: "deduplicate_items [one_page [paracetamol_100], one_page [paracetamol_500]] =
        Inr [one_page [paracetamol_100], one_page []]"
    by code_simp
  from equal_names_are_duplicates [OF names] names amounts run show ?thesis by simp
qed

lemma finite_amount_test:
  assumes "py_strip (py_lower (item_name item1)) \<noteq> py_strip (py_lower (item_name item2))"
    and "fgt (calculate_name_similarity (py_strip (py_lower (item_name item1)))
               (py_strip (py_lower (item_name item2)))) similarity_threshold"
    and "item_amount item1 = Fin a1" and "item_amount item2 = Fin a2"
  shows "are_items_duplicate item1 item2 =
          Inr (\<bar>a1 - a2\<bar> < 1 / 100 \<or> \<bar>a1 - a2\<bar> / max \<bar>a1\<bar> (1 / 100) < 5 / 100)"
  unfolding are_items_duplicate_def Let_def
  using assms by (auto simp: fsub_def py_max_def fgt_def max_def)

text \<open>
  Claim C8. For two items with different normalized names, a name similarity above the
  threshold and finite amounts \<open>a1\<close> and \<open>a2\<close>, the verdict is
  \<open>\<bar>a1 - a2\<bar> < 0.01 \<or> \<bar>a1 - a2\<bar> / max \<bar>a1\<bar> 0.01 < 0.05\<close>: the divisor is built from
  the first argument's amount only. The scan of the deduplicator passes the item under
  examination first and the seen item second. The verdict depends on the order: for the
  two gauze items it is false one way and true the other, so the second item is removed
  when the pack comes first and kept when the box comes first.
\<close>

theorem relative_closeness_uses_first_amount:
  "(py_strip (py_lower (item_name item1)) \<noteq> py_strip (py_lower (item_name item2))
      \<and> fgt (calculate_name_similarity (py_strip (py_lower (item_name item1)))
               (py_strip (py_lower (item_name item2)))) similarity_threshold
      \<and> item_amount item1 = Fin a1 \<and> item_amount item2 = Fin a2
    \<longrightarrow> are_items_duplicate item1 item2 =
          Inr (\<bar>a1 - a2\<bar> < 1 / 100 \<or> \<bar>a1 - a2\<bar> / max \<bar>a1\<bar> (1 / 100) < 5 / 100))
   \<and> scan_seen candidate [item_with_page earlier pn] = are_items_duplicate candidate earlier
   \<and> are_items_duplicate gauze_pack gauze_box = Inr False
   \<and> are_items_duplicate gauze_box gauze_pack = Inr True
   \<and> deduplicate_items [one_page [gauze_pack, gauze_box]] = Inr [one_page [gauze_pack]]
   \<and> deduplicate_items [one_page [gauze_box, gauze_pack]] =
        Inr [one_page [gauze_box, gauze_pack]]"
proof -
  have formula: "py_strip (py_lower (item_name item1)) \<noteq> py_strip (py_lower (item_name item2))
      \<and> fgt (calculate_name_similarity (py_strip (py_lower (item_name item1)))
               (py_strip (py_lower (item_name item2)))) similarity_threshold
      \<and> item_amount item1 = Fin a1 \<and> item_amount item2 = Fin a2
    \<longrightarrow> are_items_duplicate item1 item2 =
          Inr (\<bar>a1 - a2\<bar> < 1 / 100 \<or> \<bar>a1 - a2\<bar> / max \<bar>a1\<bar> (1 / 100) < 5 / 100)"
    using finite_amount_test [of item1 item2 a1 a2] by blast
  have scan: "scan_seen candidate [item_with_page earlier pn] = are_items_duplicate candidate earlier"
    by (simp add: are_items_duplicate_total is_dup_item_with_page)
  have "are_items_duplicate gauze_pack gauze_box = Inr False"
    "are_items_duplicate gauze_box gauze_pack = Inr True"
    "deduplicate_items [one_page [gauze_pack, gauze_box]] = Inr [one_page [gauze_pack]]"
    "deduplicate_items [one_page [gauze_box, gauze_pack]] = Inr [one_page [gauze_box, gauze_pack]]"
    by code_simp+
  with formula scan show ?thesis by blast
qed

theorem relative_closeness_uses_first_amount_witness:
  "py_strip (py_lower (item_name gauze_pack)) \<noteq> py_strip (py_lower (item_name gauze_box))
   \<and> fgt (calculate_name_similarity (py_strip (py_lower (item_name gauze_pack)))
            (py_strip (py_lower (item_name gauze_box)))) similarity_threshold
   \<and> item_amount gauze_pack = Fin 1000 \<and> item_amount gauze_box = Fin 1052
   \<and> are_items_duplicate gauze_pack gauze_box = Inr False
   \<and> are_items_duplicate gauze_box gauze_pack = Inr True"
proof -
  have names: "py_strip (py_lower (item_name gauze_pack)) \<noteq> py_strip (py_lower (item_name gauze_box))"
    by code_simp
  have sim: "fgt (calculate_name_similarity (py_strip (py_lower (item_name gauze_pack)))
            (py_strip (py_lower (item_name gauze_box)))) similarity_threshold"
    by code_simp
  have sim': "fgt (calculate_name_similarity (py_strip (py_lower (item_name gauze_box)))
            (py_strip (py_lower (item_name gauze_pack)))) similarity_threshold"
    by code_simp
  have amounts: "item_amount gauze_pack = Fin 1000" "item_amount gauze_box = Fin 1052"
    by (simp_all add: gauze_pack_def gauze_box_def priced_def)
  from relative_closeness_uses_first_amount [of gauze_pack gauze_box 1000 1052] names sim amounts
  have "are_items_duplicate gauze_pack gauze_box = Inr False" by simp
  moreover from relative_closeness_uses_first_amount [of gauze_box gauze_pack 1052 1000] names sim' amounts
  have "are_items_duplicate gauze_box gauze_pack = Inr True" by simp
  ultimately show ?thesis using names sim amounts by simp
qed

section \<open>The item validator\<close>

text \<open>
  Claim C9. Validation is idempotent: an item that the validator has produced, given to
  the validator again, is accepted and returned with the same name and the same three
  numbers.
\<close>

theorem validate_item_idempotent:
  assumes "validate_item rt raw = Inr (Some it)"
  shows "validate_item rt (item_json it) = Inr (Some it)"
  using validated_item_name [OF assms] by (simp add: validate_item_item_json)

theorem validate_item_idempotent_witness:
  "validate_item example_builtins consultation_raw = Inr (Some consultation_item)
   \<and> validate_item example_builtins (item_json consultation_item) = Inr (Some consultation_item)"
proof -
  have run: "validate_item example_builtins consultation_raw = Inr (Some consultation_item)"
    by code_simp
  from validate_item_idempotent [OF run] run show ?thesis by simp
qed

text \<open>
  Claim C10. An item whose \<^verbatim>\<open>item_name\<close> is present and null is not rejected: the name
  becomes the text \<^verbatim>\<open>None\<close>, and the item is emitted under that name when its numeric
  fields coerce. An item without \<^verbatim>\<open>item_name\<close> is rejected. For an item whose name is
  not a total line and whose numeric fields coerce, rejection happens exactly when the
  coerced, trimmed name has fewer than 2 characters.
\<close>

theorem null_item_name_becomes_None:
  "(map_of kvs ''item_name'' = Some JNull
      \<and> float_field rt (JDict kvs) ''item_amount'' = Inr a
      \<and> float_field rt (JDict kvs) ''item_rate'' = Inr r
      \<and> float_field rt (JDict kvs) ''item_quantity'' = Inr q
    \<longrightarrow> validate_item rt (JDict kvs) =
          Inr (Some \<lparr>item_name = ''None'', item_amount = a, item_rate = r, item_quantity = q\<rparr>))
   \<and> (map_of kvs ''item_name'' = None \<longrightarrow> validate_item rt (JDict kvs) = Inr None)
   \<and> (dict_get item ''item_name'' (JStr []) = Inr v
      \<and> \<not> is_total_or_subtotal (py_strip (py_str rt v))
      \<and> float_field rt item ''item_amount'' = Inr a'
      \<and> float_field rt item ''item_rate'' = Inr r'
      \<and> float_field rt item ''item_quantity'' = Inr q'
    \<longrightarrow> (validate_item rt item = Inr None \<longleftrightarrow> length (py_strip (py_str rt v)) < 2))"
proof (intro conjI impI)
  assume h: "map_of kvs ''item_name'' = Some JNull
      \<and> float_field rt (JDict kvs) ''item_amount'' = Inr a
      \<and> float_field rt (JDict kvs) ''item_rate'' = Inr r
      \<and> float_field rt (JDict kvs) ''item_quantity'' = Inr q"
  then have "dict_get (JDict kvs) ''item_name'' (JStr []) = Inr JNull" by simp
  from validate_item_accepts [OF this, of rt a r q] h None_name
  show "validate_item rt (JDict kvs) =
          Inr (Some \<lparr>item_name = ''None'', item_amount = a, item_rate = r, item_quantity = q\<rparr>)"
    by simp
next
  assume "map_of kvs ''item_name'' = None"
  then have "dict_get (JDict kvs) ''item_name'' (JStr []) = Inr (JStr [])" by simp
  from validate_item_short_name [OF this, of rt]
  show "validate_item rt (JDict kvs) = Inr None"
    by (simp add: py_strip_def py_lstrip_def py_rstrip_def)
next
  assume h: "dict_get item ''item_name'' (JStr []) = Inr v
      \<and> \<not> is_total_or_subtotal (py_strip (py_str rt v))
      \<and> float_field rt item ''item_amount'' = Inr a'
      \<and> float_field rt item ''item_rate'' = Inr r'
      \<and> float_field rt item ''item_quantity'' = Inr q'"
  show "validate_item rt item = Inr None \<longleftrightarrow> length (py_strip (py_str rt v)) < 2"
  proof (cases "length (py_strip (py_str rt v)) < 2")
    case True
    with h validate_item_short_name [of item v rt] show ?thesis by simp
  next
    case False
    with h validate_item_accepts [of item v rt a' r' q'] show ?thesis by simp
  qed
qed

theorem null_item_name_becomes_None_witness:
  "map_of [(''item_name'', JNull), (''item_amount'', JFloat (Fin 75))] ''item_name'' = Some JNull
   \<and> validate_item example_builtins null_name_raw =
       Inr (Some \<lparr>item_name = ''None'', item_amount = Fin 75, item_rate = Fin 0,
                  item_quantity = Fin 0\<rparr>)
   \<and> map_of [(''item_amount'', JFloat (Fin 75))] ''item_name'' = None
   \<and> validate_item example_builtins nameless_raw = Inr None"
proof -
  let ?kvs = "[(''item_name'', JNull), (''item_amount'', JFloat (Fin 75))]"
  let ?kvs' = "[(''item_amount'', JFloat (Fin 75 :: pyfloat))]"
  have 1: "map_of ?kvs ''item_name'' = Some JNull" by simp
  have 2: "float_field example_builtins (JDict ?kvs) ''item_amount'' = Inr (Fin 75)"
    "float_field example_builtins (JDict ?kvs) ''item_rate'' = Inr (Fin 0)"
    "float_field example_builtins (JDict ?kvs) ''item_quantity'' = Inr (Fin 0)"
    by (simp_all add: float_field_def)
  have 3: "map_of ?kvs' ''item_name'' = None" by simp
  from null_item_name_becomes_None [of ?kvs example_builtins "Fin 75" "Fin 0" "Fin 0"] 1 2
  have "validate_item example_builtins null_name_raw =
       Inr (Some \<lparr>item_name = ''None'', item_amount = Fin 75, item_rate = Fin 0,
                  item_quantity = Fin 0\<rparr>)"
    by (simp add: null_name_raw_def)
  moreover from null_item_name_becomes_None [of ?kvs' example_builtins] 3
  have "validate_item example_builtins nameless_raw = Inr None"
    by (simp add: nameless_raw_def)
  ultimately show ?thesis using 1 3 by simp
qed

section \<open>Malformed pages\<close>

text \<open>
  Claim C3 does not hold of the code. A page whose \<^verbatim>\<open>page_type\<close> is null raises
  \<^verbatim>\<open>AttributeError\<close> (\<^verbatim>\<open>None\<close> has no method \<^verbatim>\<open>lower\<close>), and a page whose
  \<^verbatim>\<open>bill_items\<close> is null raises \<^verbatim>\<open>TypeError\<close> (\<^verbatim>\<open>None\<close> is not iterable): the call
  \<^verbatim>\<open>validate_and_deduplicate\<close> does not complete on either.
\<close>

theorem null_page_fields_raise:
  "validate_and_deduplicate rt [null_type_page] = Inl AttributeError
   \<and> validate_and_deduplicate rt [null_items_page] = Inl TypeError"
  by code_simp

section \<open>The items of the output\<close>

text \<open>
  Claim C7, as stated, fails in its numeric part. The validator coerces with \<^verbatim>\<open>float\<close> and
  never tests for finiteness, so an amount \<^verbatim>\<open>Infinity\<close> and a rate \<^verbatim>\<open>NaN\<close>, both of which
  \<^verbatim>\<open>json.loads\<close> reads, reach the output.
\<close>

theorem infinite_amount_counterexample:
  "validate_and_deduplicate example_builtins infinite_amount_pages = Inr [one_page [xray_item]]
   \<and> \<not> is_finite (item_amount xray_item) \<and> \<not> is_finite (item_rate xray_item)"
  by code_simp

text \<open>
  Claim C7, amended. Every item in the output of \<^verbatim>\<open>validate_and_deduplicate\<close> has a name
  that is not empty, is trimmed, has at least 2 characters and is not classified as a
  total; its amount, rate and quantity are floats, of any sign, possibly infinite or not
  a number. The item is what the item validator returned for a raw item of an input page,
  and the validator accepts it again unchanged: no item that fails validation is in the
  output.
\<close>

theorem output_items_are_validated:
  assumes "validate_and_deduplicate rt pagewise_line_items = Inr out"
    and "pg \<in> set out" and "it \<in> set (bill_items pg)"
  shows "item_name it \<noteq> [] \<and> py_strip (item_name it) = item_name it
         \<and> 2 \<le> length (item_name it) \<and> \<not> is_total_or_subtotal (item_name it)
         \<and> (\<exists>raw_page \<in> set pagewise_line_items. \<exists>raw \<in> set (raw_items_of raw_page).
               validate_item rt raw = Inr (Some it))
         \<and> validate_item rt (item_json it) = Inr (Some it)"
proof -
  from assms(1,2) obtain vps where vps: "validate_pages rt pagewise_line_items [] = Inr vps"
    and dd: "deduplicate_items vps = Inr out"
    unfolding validate_and_deduplicate_def by (auto split: if_splits sum.splits)
  from deduplicate_items_sound [OF dd assms(2,3)]
  obtain vp where vp: "vp \<in> set vps" "it \<in> set (bill_items vp)" by blast
  from validate_pages_sound [OF vps vp(1)]
  obtain raw_page where rp: "raw_page \<in> set pagewise_line_items" "validate_page rt raw_page = Inr vp"
    by auto
  from validate_page_sound [OF rp(2) vp(2)]
  obtain raw where raw: "raw \<in> set (raw_items_of raw_page)" "validate_item rt raw = Inr (Some it)"
    by blast
  from validated_item_name [OF raw(2)]
  have name: "py_strip (item_name it) = item_name it" "2 \<le> length (item_name it)"
    "\<not> is_total_or_subtotal (item_name it)" by simp_all
  from name(2) have "item_name it \<noteq> []" by auto
  moreover from validate_item_item_json [OF name]
  have "validate_item rt (item_json it) = Inr (Some it)" .
  ultimately show ?thesis using name rp(1) raw by blast
qed

theorem output_items_are_validated_witness:
  "validate_and_deduplicate example_builtins visit_pages = Inr visit_pages_out
   \<and> dressing_page \<in> set visit_pages_out
   \<and> dressing_entry \<in> set (bill_items dressing_page)
   \<and> item_name dressing_entry = ''Dressing''
   \<and> py_strip (item_name dressing_entry) = item_name dressing_entry
   \<and> \<not> is_total_or_subtotal (item_name dressing_entry)
   \<and> validate_item example_builtins (item_json dressing_entry) = Inr (Some dressing_entry)"
proof -
  have run: "validate_and_deduplicate example_builtins visit_pages = Inr visit_pages_out"
    by code_simp
  have page: "dressing_page \<in> set visit_pages_out"
    by (simp add: visit_pages_out_def dressing_page_def dressing_entry_def)
  have entry: "dressing_entry \<in> set (bill_items dressing_page)"
    by (simp add: dressing_page_def)
  have "item_name dressing_entry = ''Dressing''"
    by (simp add: dressing_entry_def)
  with output_items_are_validated [OF run page entry] run page entry
  show ?thesis by simp
qed

section \<open>Reconciliation\<close>



end
